theory Spec2Isabelle
  imports Main "HOL-Library.Word"
begin

section \<open>Port ranges: the data model of ports.go\<close>

text \<open>
  The Go package \<^verbatim>\<open>portrange\<close> has one struct, three protocol constants, three error
  values and seven functions. Ports are \<^verbatim>\<open>uint16\<close> and the protocol is \<^verbatim>\<open>uint8\<close>; both
  are modelled as machine words, so that \<^verbatim>\<open>p.maxPort+1\<close> wraps around exactly as Go's
  unsigned addition does.
\<close>

type_synonym uint16 = "16 word"
type_synonym uint8 = "8 word"

definition ProtoInvalid :: uint8 where
  "ProtoInvalid = 0"

definition ProtoTcp :: uint8 where
  "ProtoTcp = 6"

definition ProtoUdp :: uint8 where
  "ProtoUdp = 17"

datatype error = ErrBadRange | ErrBadProto | ErrDisjointRanges

record PortRange =
  minPort :: uint16
  maxPort :: uint16
  proto :: uint8

subsection \<open>Validation and construction\<close>

text \<open>
  \<^verbatim>\<open>Validate\<close> returns a Go \<^verbatim>\<open>error\<close>; \<open>None\<close> stands for \<^verbatim>\<open>nil\<close>. The three checks are
  kept in the order of the source.
\<close>

definition Validate :: "PortRange \<Rightarrow> error option" where
  "Validate p =
     (if minPort p = 0 \<or> maxPort p = 0 then Some ErrBadRange
      else if minPort p > maxPort p then Some ErrBadRange
      else if proto p \<noteq> ProtoTcp \<and> proto p \<noteq> ProtoUdp then Some ErrBadProto
      else None)"

text \<open>
  \<^verbatim>\<open>New\<close> returns \<^verbatim>\<open>(nil, err)\<close> or \<^verbatim>\<open>(p, nil)\<close>: a sum, with the error on the left.
\<close>

definition New :: "uint16 \<Rightarrow> uint16 \<Rightarrow> uint8 \<Rightarrow> error + PortRange" where
  "New minPort' maxPort' proto' =
     (let p = \<lparr>minPort = minPort', maxPort = maxPort', proto = proto'\<rparr>
      in case Validate p of
           Some err \<Rightarrow> Inl err
         | None \<Rightarrow> Inr p)"

subsection \<open>The read-only predicates\<close>

text \<open>
  The receiver \<^verbatim>\<open>p\<close> and the argument \<^verbatim>\<open>o\<close> of the source are written \<open>p\<close> and \<open>q\<close>
  (\<open>o\<close> is function composition in HOL). The predicates only read their operands, so
  they take the two struct values.
\<close>

definition Overlaps :: "PortRange \<Rightarrow> PortRange \<Rightarrow> bool" where
  "Overlaps p q =
     (if proto p \<noteq> proto q then False
      else if minPort p > maxPort q then False
      else if minPort q > maxPort p then False
      else True)"

definition Adjacent :: "PortRange \<Rightarrow> PortRange \<Rightarrow> bool" where
  "Adjacent p q =
     (if proto p \<noteq> proto q then False
      else if Overlaps p q then False
      else if maxPort p + 1 = minPort q then True
      else if maxPort q + 1 = minPort p then True
      else False)"

definition EntirelyLessThan :: "PortRange \<Rightarrow> PortRange \<Rightarrow> bool" where
  "EntirelyLessThan p q =
     (if proto p < proto q then True
      else if Overlaps p q then False
      else if maxPort p < minPort q then True
      else False)"

subsection \<open>The mutating operations, over a store\<close>

text \<open>
  \<^verbatim>\<open>Overlap\<close> and \<^verbatim>\<open>MergeWith\<close> take two pointers and write through the second one. The
  two pointers may be the same, so the model keeps a store from references to structs
  and performs the reads and the writes in the order of the source. Both functions
  return the Go \<^verbatim>\<open>error\<close> together with the store after the call. A \<^verbatim>\<open>nil\<close> pointer,
  on which the source panics at the first field access, is not a reference of the
  store.
\<close>

type_synonym ref = nat
type_synonym store = "ref \<Rightarrow> PortRange"

definition Overlap :: "ref \<Rightarrow> ref \<Rightarrow> store \<Rightarrow> error option \<times> store" where
  "Overlap p q h =
     (if \<not> Overlaps (h p) (h q) then (Some ErrDisjointRanges, h)
      else
        let minPort0 = minPort (h p);
            minPort1 = (if minPort (h q) > minPort0 then minPort (h q) else minPort0);
            maxPort0 = maxPort (h p);
            maxPort1 = (if maxPort (h q) < maxPort0 then maxPort (h q) else maxPort0);
            h1 = h(q := (h q)\<lparr>minPort := minPort1\<rparr>);
            h2 = h1(q := (h1 q)\<lparr>maxPort := maxPort1\<rparr>)
        in (None, h2))"

definition MergeWith :: "ref \<Rightarrow> ref \<Rightarrow> store \<Rightarrow> error option \<times> store" where
  "MergeWith p q h =
     (if Overlaps (h p) (h q) \<or> Adjacent (h p) (h q) then
        let h1 = (if minPort (h q) > minPort (h p)
                  then h(q := (h q)\<lparr>minPort := minPort (h p)\<rparr>) else h);
            h2 = (if maxPort (h1 q) < maxPort (h1 p)
                  then h1(q := (h1 q)\<lparr>maxPort := maxPort (h1 p)\<rparr>) else h1)
        in (None, h2)
      else (Some ErrDisjointRanges, h))"

subsection \<open>Stores for concrete runs\<close>

text \<open>
  The cases of \<^verbatim>\<open>TestOverlap\<close> and \<^verbatim>\<open>TestMergeWith\<close> allocate a source \<^verbatim>\<open>s\<close> and a
  destination \<^verbatim>\<open>d\<close>. \<open>two_ranges s d\<close> is such a store: the source lives at reference
  \<open>0\<close>, the destination at every other reference.
\<close>

definition two_ranges :: "PortRange \<Rightarrow> PortRange \<Rightarrow> store" where
  "two_ranges s d = (\<lambda>r. if r = 0 then s else d)"

section \<open>Arithmetic on ports\<close>

text \<open>
  The successor of a port, computed in 16 bits, is the successor of its value as a
  natural number whenever the result is compared with a non-zero port.
\<close>

lemma succ_eq_iff_unat:
  fixes a b :: uint16
  assumes "b \<noteq> 0"
  shows "a + 1 = b \<longleftrightarrow> unat a + 1 = unat b"
proof
  assume eq: "a + 1 = b"
  with assms have "1 + a \<noteq> 0" by (simp add: add.commute)
  then have "unat (1 + a) = Suc (unat a)" by (rule unatSuc)
  with eq show "unat a + 1 = unat b" by (simp add: add.commute)
next
  assume "unat a + 1 = unat b"
  then have "(of_nat (unat a + 1) :: uint16) = of_nat (unat b)" by simp
  then show "a + 1 = b" by (simp add: add.commute)
qed

lemma le_max_port: "x \<le> (65535 :: uint16)"
proof -
  have "(65535 :: uint16) = - 1" by simp
  then show ?thesis by (simp only: word_n1_ge)
qed

section \<open>Construction and validation\<close>

text \<open>
  C1. \<^verbatim>\<open>New\<close> succeeds exactly when both ports are non-zero, \<open>minPort \<le> maxPort\<close> and the
  protocol is 6 or 17, and then returns the range built from its arguments. It fails
  with \<open>ErrBadRange\<close> whenever the bounds are invalid, whatever the protocol, and with
  \<open>ErrBadProto\<close> when the bounds are valid and the protocol is not. \<^verbatim>\<open>Validate\<close> on a
  range \<open>r\<close> answers \<^verbatim>\<open>nil\<close>, \<open>ErrBadRange\<close> and \<open>ErrBadProto\<close> under the same conditions.
\<close>

theorem New_Validate_spec:
  "((\<exists>r'. New a b c = Inr r') \<longleftrightarrow> (a \<noteq> 0 \<and> b \<noteq> 0 \<and> a \<le> b \<and> c \<in> {6, 17}))
   \<and> (a \<noteq> 0 \<and> b \<noteq> 0 \<and> a \<le> b \<and> c \<in> {6, 17} \<longrightarrow>
        New a b c = Inr \<lparr>minPort = a, maxPort = b, proto = c\<rparr>)
   \<and> (a = 0 \<or> b = 0 \<or> a > b \<longrightarrow> New a b c = Inl ErrBadRange)
   \<and> (\<not> (a = 0 \<or> b = 0 \<or> a > b) \<and> c \<notin> {6, 17} \<longrightarrow> New a b c = Inl ErrBadProto)
   \<and> (Validate r = None \<longleftrightarrow>
        (minPort r \<noteq> 0 \<and> maxPort r \<noteq> 0 \<and> minPort r \<le> maxPort r \<and> proto r \<in> {6, 17}))
   \<and> (minPort r = 0 \<or> maxPort r = 0 \<or> minPort r > maxPort r \<longrightarrow>
        Validate r = Some ErrBadRange)
   \<and> (\<not> (minPort r = 0 \<or> maxPort r = 0 \<or> minPort r > maxPort r) \<and> proto r \<notin> {6, 17} \<longrightarrow>
        Validate r = Some ErrBadProto)"
  by (auto simp: New_def Validate_def ProtoTcp_def ProtoUdp_def Let_def)

text \<open>
  The cases of \<^verbatim>\<open>TestNew\<close>, and a zero port together with an unknown protocol.
\<close>

theorem New_Validate_spec_witness:
  "New 16 16 6 = Inr \<lparr>minPort = 16, maxPort = 16, proto = 6\<rparr>
   \<and> New 0 16 99 = Inl ErrBadRange
   \<and> New 16 16 99 = Inl ErrBadProto
   \<and> Validate \<lparr>minPort = 16, maxPort = 20, proto = 17\<rparr> = None
   \<and> Validate \<lparr>minPort = 20, maxPort = 16, proto = 99\<rparr> = Some ErrBadRange
   \<and> Validate \<lparr>minPort = 16, maxPort = 16, proto = 0\<rparr> = Some ErrBadProto"
  using New_Validate_spec [of 16 16 6 "\<lparr>minPort = 16, maxPort = 20, proto = 17\<rparr>"]
    New_Validate_spec [of 0 16 99 "\<lparr>minPort = 20, maxPort = 16, proto = 99\<rparr>"]
    New_Validate_spec [of 16 16 99 "\<lparr>minPort = 16, maxPort = 16, proto = 0\<rparr>"]
  by simp

section \<open>Overlaps and Adjacent\<close>

text \<open>
  C5. \<open>Overlaps A B\<close> holds exactly when the protocols are equal and neither range
  starts above the end of the other; ranges of different protocols never overlap.
\<close>

theorem Overlaps_spec:
  "(Overlaps A B \<longleftrightarrow>
      proto A = proto B \<and> \<not> minPort A > maxPort B \<and> \<not> minPort B > maxPort A)
   \<and> (proto A \<noteq> proto B \<longrightarrow> \<not> Overlaps A B)"
  by (simp add: Overlaps_def)

theorem Overlaps_spec_witness:
  "proto \<lparr>minPort = 80, maxPort = 80, proto = 6\<rparr> \<noteq> proto \<lparr>minPort = 80, maxPort = 80, proto = 17\<rparr>
   \<and> \<not> Overlaps \<lparr>minPort = 80, maxPort = 80, proto = 6\<rparr> \<lparr>minPort = 80, maxPort = 80, proto = 17\<rparr>
   \<and> Overlaps \<lparr>minPort = 16, maxPort = 25, proto = 6\<rparr> \<lparr>minPort = 18, maxPort = 27, proto = 6\<rparr>"
  using Overlaps_spec [of "\<lparr>minPort = 80, maxPort = 80, proto = 6\<rparr>"
      "\<lparr>minPort = 80, maxPort = 80, proto = 17\<rparr>"]
    Overlaps_spec [of "\<lparr>minPort = 16, maxPort = 25, proto = 6\<rparr>"
      "\<lparr>minPort = 18, maxPort = 27, proto = 6\<rparr>"]
  by simp

text \<open>
  C8. Both predicates are symmetric in their two operands.
\<close>

theorem Overlaps_Adjacent_symmetric:
  "Overlaps A B = Overlaps B A \<and> Adjacent A B = Adjacent B A"
  by (auto simp: Overlaps_def Adjacent_def)

text \<open>
  The sum \<^verbatim>\<open>p.maxPort+1\<close> is a \<^verbatim>\<open>uint16\<close>: for \<open>maxPort = 65535\<close> it is \<open>0\<close>. The range
  \<open>[10, 65535]\<close> and the range \<open>[0, 5]\<close> of the same protocol do not overlap and are not
  one unit apart as integers, and \<open>Adjacent\<close> answers true for them.
\<close>

theorem Adjacent_exact_counterexample:
  "Adjacent \<lparr>minPort = 10, maxPort = 65535, proto = 6\<rparr> \<lparr>minPort = 0, maxPort = 5, proto = 6\<rparr>
   \<and> unat (65535 :: uint16) + 1 \<noteq> unat (0 :: uint16)
   \<and> unat (5 :: uint16) + 1 \<noteq> unat (10 :: uint16)"
  by (simp add: Adjacent_def Overlaps_def)

text \<open>
  C6, for ranges whose lower bound is not zero, as every validated range has it.
  For such \<open>A\<close> and \<open>B\<close>, \<open>Adjacent A B\<close> holds exactly when the protocols are equal, the
  ranges do not overlap, and \<open>maxPort A + 1 = minPort B\<close> or \<open>maxPort B + 1 = minPort A\<close>
  as natural numbers, without wrap-around. For all pairs, adjacent ranges do not
  overlap.
\<close>

theorem Adjacent_spec:
  "(minPort A \<noteq> 0 \<and> minPort B \<noteq> 0 \<longrightarrow>
      (Adjacent A B \<longleftrightarrow>
         proto A = proto B \<and> \<not> Overlaps A B
         \<and> (unat (maxPort A) + 1 = unat (minPort B) \<or> unat (maxPort B) + 1 = unat (minPort A))))
   \<and> (Adjacent A B \<longrightarrow> \<not> Overlaps A B)"
  by (auto simp: Adjacent_def succ_eq_iff_unat)

theorem Adjacent_spec_witness:
  "minPort \<lparr>minPort = 16, maxPort = 20, proto = 6\<rparr> \<noteq> 0
   \<and> minPort \<lparr>minPort = 21, maxPort = 26, proto = 6\<rparr> \<noteq> 0
   \<and> Adjacent \<lparr>minPort = 16, maxPort = 20, proto = 6\<rparr> \<lparr>minPort = 21, maxPort = 26, proto = 6\<rparr>
   \<and> \<not> Overlaps \<lparr>minPort = 16, maxPort = 20, proto = 6\<rparr> \<lparr>minPort = 21, maxPort = 26, proto = 6\<rparr>"
  using Adjacent_spec [of "\<lparr>minPort = 16, maxPort = 20, proto = 6\<rparr>"
      "\<lparr>minPort = 21, maxPort = 26, proto = 6\<rparr>"]
  by (simp add: Overlaps_def)

text \<open>
  A range ending at port 65535 is reported adjacent to a range starting at port 0,
  through the comparison \<open>maxPort A + 1 = minPort B\<close>: the sum wraps around to \<open>0\<close>. The
  other comparison does not hold here.
\<close>

theorem Adjacent_max_port_counterexample:
  "maxPort \<lparr>minPort = 200, maxPort = 65535, proto = 17\<rparr> = 65535
   \<and> maxPort \<lparr>minPort = 200, maxPort = 65535, proto = 17\<rparr> + 1
       = minPort \<lparr>minPort = 0, maxPort = 100, proto = 17\<rparr>
   \<and> maxPort \<lparr>minPort = 0, maxPort = 100, proto = 17\<rparr> + 1
       \<noteq> minPort \<lparr>minPort = 200, maxPort = 65535, proto = 17\<rparr>
   \<and> Adjacent \<lparr>minPort = 200, maxPort = 65535, proto = 17\<rparr>
       \<lparr>minPort = 0, maxPort = 100, proto = 17\<rparr>"
  by (simp add: Adjacent_def Overlaps_def)

text \<open>
  C7, for a second range whose lower bound is not zero. If \<open>maxPort A = 65535\<close> and
  \<open>minPort B \<noteq> 0\<close>, the comparison \<open>maxPort A + 1 = minPort B\<close> of \<open>Adjacent\<close> is false, and
  \<open>A\<close> is adjacent to \<open>B\<close> only if \<open>B\<close> ends exactly one port below the start of \<open>A\<close>, as
  natural numbers.
\<close>

theorem Adjacent_max_port:
  assumes "maxPort A = 65535" and "minPort B \<noteq> 0"
  shows "maxPort A + 1 \<noteq> minPort B
         \<and> (Adjacent A B \<longrightarrow> unat (maxPort B) + 1 = unat (minPort A))"
proof
  from assms(1) have "maxPort A + 1 = 0" by simp
  with assms(2) show ne: "maxPort A + 1 \<noteq> minPort B" by simp
  show "Adjacent A B \<longrightarrow> unat (maxPort B) + 1 = unat (minPort A)"
  proof
    assume adj: "Adjacent A B"
    from adj have no: "\<not> Overlaps A B" and pr: "proto A = proto B"
      by (auto simp: Adjacent_def split: if_splits)
    from adj ne have eq: "maxPort B + 1 = minPort A"
      by (auto simp: Adjacent_def split: if_splits)
    have "minPort B \<le> maxPort A" using assms(1) le_max_port by simp
    with no pr have "maxPort B < minPort A"
      by (auto simp: Overlaps_def split: if_splits)
    then have "minPort A \<noteq> 0" by (auto simp: word_gt_0)
    with eq show "unat (maxPort B) + 1 = unat (minPort A)"
      by (simp add: succ_eq_iff_unat)
  qed
qed

theorem Adjacent_max_port_witness:
  "maxPort \<lparr>minPort = 65000, maxPort = 65535, proto = 6\<rparr> = 65535
   \<and> minPort \<lparr>minPort = 64000, maxPort = 64999, proto = 6\<rparr> \<noteq> 0
   \<and> Adjacent \<lparr>minPort = 65000, maxPort = 65535, proto = 6\<rparr>
       \<lparr>minPort = 64000, maxPort = 64999, proto = 6\<rparr>
   \<and> maxPort \<lparr>minPort = 65000, maxPort = 65535, proto = 6\<rparr> + 1
       \<noteq> minPort \<lparr>minPort = 64000, maxPort = 64999, proto = 6\<rparr>
   \<and> unat (maxPort \<lparr>minPort = 64000, maxPort = 64999, proto = 6\<rparr>) + 1
       = unat (minPort \<lparr>minPort = 65000, maxPort = 65535, proto = 6\<rparr>)"
  using Adjacent_max_port [of "\<lparr>minPort = 65000, maxPort = 65535, proto = 6\<rparr>"
      "\<lparr>minPort = 64000, maxPort = 64999, proto = 6\<rparr>"]
  by (simp add: Adjacent_def Overlaps_def)

section \<open>Intersection and union\<close>

text \<open>
  C2. When the source \<open>h s\<close> and the destination \<open>h d\<close> do not overlap, \<open>Overlap s d\<close>
  returns \<open>ErrDisjointRanges\<close> and the store is the one before the call. When they
  overlap it returns \<^verbatim>\<open>nil\<close>, and the destination afterwards has the larger of the two
  lower bounds, the smaller of the two upper bounds, and its own protocol. The source is
  the same before and after the call, also when source and destination are one struct,
  and so is every struct other than the destination.
\<close>

theorem Overlap_spec:
  "(\<not> Overlaps (h s) (h d) \<longrightarrow> Overlap s d h = (Some ErrDisjointRanges, h))
   \<and> (Overlaps (h s) (h d) \<longrightarrow>
        fst (Overlap s d h) = None
        \<and> minPort (snd (Overlap s d h) d) = max (minPort (h s)) (minPort (h d))
        \<and> maxPort (snd (Overlap s d h) d) = min (maxPort (h s)) (maxPort (h d))
        \<and> proto (snd (Overlap s d h) d) = proto (h d))
   \<and> snd (Overlap s d h) s = h s
   \<and> (\<forall>r. r \<noteq> d \<longrightarrow> snd (Overlap s d h) r = h r)"
  by (auto simp: Overlap_def Overlaps_def Let_def max_def min_def)

text \<open>
  The cases "TCP Overlap" and "No Overlap" of \<^verbatim>\<open>TestOverlap\<close>.
\<close>

theorem Overlap_spec_witness:
  "Overlaps \<lparr>minPort = 17, maxPort = 20, proto = 6\<rparr> \<lparr>minPort = 18, maxPort = 21, proto = 6\<rparr>
   \<and> fst (Overlap 0 1 (two_ranges \<lparr>minPort = 17, maxPort = 20, proto = 6\<rparr>
                                    \<lparr>minPort = 18, maxPort = 21, proto = 6\<rparr>)) = None
   \<and> minPort (snd (Overlap 0 1 (two_ranges \<lparr>minPort = 17, maxPort = 20, proto = 6\<rparr>
                                    \<lparr>minPort = 18, maxPort = 21, proto = 6\<rparr>)) 1) = 18
   \<and> maxPort (snd (Overlap 0 1 (two_ranges \<lparr>minPort = 17, maxPort = 20, proto = 6\<rparr>
                                    \<lparr>minPort = 18, maxPort = 21, proto = 6\<rparr>)) 1) = 20
   \<and> proto (snd (Overlap 0 1 (two_ranges \<lparr>minPort = 17, maxPort = 20, proto = 6\<rparr>
                                    \<lparr>minPort = 18, maxPort = 21, proto = 6\<rparr>)) 1) = 6
   \<and> snd (Overlap 0 1 (two_ranges \<lparr>minPort = 17, maxPort = 20, proto = 6\<rparr>
                                    \<lparr>minPort = 18, maxPort = 21, proto = 6\<rparr>)) 0
       = \<lparr>minPort = 17, maxPort = 20, proto = 6\<rparr>
   \<and> \<not> Overlaps \<lparr>minPort = 17, maxPort = 18, proto = 17\<rparr> \<lparr>minPort = 19, maxPort = 21, proto = 17\<rparr>
   \<and> Overlap 0 1 (two_ranges \<lparr>minPort = 17, maxPort = 18, proto = 17\<rparr>
                               \<lparr>minPort = 19, maxPort = 21, proto = 17\<rparr>)
       = (Some ErrDisjointRanges, two_ranges \<lparr>minPort = 17, maxPort = 18, proto = 17\<rparr>
                                             \<lparr>minPort = 19, maxPort = 21, proto = 17\<rparr>)"
  using Overlap_spec [of "two_ranges \<lparr>minPort = 17, maxPort = 20, proto = 6\<rparr>
                                     \<lparr>minPort = 18, maxPort = 21, proto = 6\<rparr>" 0 1]
    Overlap_spec [of "two_ranges \<lparr>minPort = 17, maxPort = 18, proto = 17\<rparr>
                                 \<lparr>minPort = 19, maxPort = 21, proto = 17\<rparr>" 0 1]
  by (simp add: two_ranges_def Overlaps_def)

text \<open>
  What \<open>MergeWith\<close> does in terms of the predicates as the code computes them: it
  fails, with the store untouched, exactly when both \<open>Overlaps\<close> and \<open>Adjacent\<close> answer
  false, and otherwise widens the destination to both ranges. The source and every
  struct other than the destination are never written.
\<close>

lemma MergeWith_result:
  "(\<not> Overlaps (h s) (h d) \<and> \<not> Adjacent (h s) (h d) \<longrightarrow>
        MergeWith s d h = (Some ErrDisjointRanges, h))
   \<and> (Overlaps (h s) (h d) \<or> Adjacent (h s) (h d) \<longrightarrow>
        fst (MergeWith s d h) = None
        \<and> minPort (snd (MergeWith s d h) d) = min (minPort (h s)) (minPort (h d))
        \<and> maxPort (snd (MergeWith s d h) d) = max (maxPort (h s)) (maxPort (h d))
        \<and> proto (snd (MergeWith s d h) d) = proto (h d))
   \<and> snd (MergeWith s d h) s = h s
   \<and> (\<forall>r. r \<noteq> d \<longrightarrow> snd (MergeWith s d h) r = h r)"
  by (auto simp: MergeWith_def Let_def max_def min_def)

text \<open>
  For two ranges whose lower bounds are not zero, the answer of \<open>Adjacent\<close> is
  adjacency: same protocol, no overlap, and exactly one port apart as natural numbers.
\<close>

lemma Adjacent_iff_one_apart:
  assumes "minPort A \<noteq> 0" and "minPort B \<noteq> 0"
  shows "Adjacent A B \<longleftrightarrow>
           proto A = proto B \<and> \<not> Overlaps A B
           \<and> (unat (maxPort A) + 1 = unat (minPort B) \<or> unat (maxPort B) + 1 = unat (minPort A))"
  using assms by (auto simp: Adjacent_def succ_eq_iff_unat)

text \<open>
  The source \<open>[200, 65535]\<close> and the destination \<open>[0, 100]\<close>, both UDP, do not overlap
  and are not one port apart: \<open>65535 + 1\<close> is not \<open>0\<close> and \<open>100 + 1\<close> is not \<open>200\<close>. The
  16-bit sum \<^verbatim>\<open>p.maxPort+1\<close> is \<open>0\<close>, so \<open>MergeWith\<close> returns \<^verbatim>\<open>nil\<close> and rewrites the
  destination to \<open>[0, 65535]\<close>.
\<close>

theorem MergeWith_wrap_counterexample:
  "\<not> Overlaps \<lparr>minPort = 200, maxPort = 65535, proto = 17\<rparr> \<lparr>minPort = 0, maxPort = 100, proto = 17\<rparr>
   \<and> unat (65535 :: uint16) + 1 \<noteq> unat (0 :: uint16)
   \<and> unat (100 :: uint16) + 1 \<noteq> unat (200 :: uint16)
   \<and> fst (MergeWith 0 1 (two_ranges \<lparr>minPort = 200, maxPort = 65535, proto = 17\<rparr>
                                      \<lparr>minPort = 0, maxPort = 100, proto = 17\<rparr>)) = None
   \<and> snd (MergeWith 0 1 (two_ranges \<lparr>minPort = 200, maxPort = 65535, proto = 17\<rparr>
                                      \<lparr>minPort = 0, maxPort = 100, proto = 17\<rparr>)) 1
       = \<lparr>minPort = 0, maxPort = 65535, proto = 17\<rparr>
   \<and> snd (MergeWith 0 1 (two_ranges \<lparr>minPort = 200, maxPort = 65535, proto = 17\<rparr>
                                      \<lparr>minPort = 0, maxPort = 100, proto = 17\<rparr>)) 1
       \<noteq> \<lparr>minPort = 0, maxPort = 100, proto = 17\<rparr>"
  by (simp add: MergeWith_def Adjacent_def Overlaps_def two_ranges_def Let_def)

text \<open>
  C3, for a source \<open>h s\<close> and a destination \<open>h d\<close> whose lower bounds are not zero, as
  every validated range has it. Adjacent means: same protocol, no overlap, and
  \<open>maxPort + 1 = minPort\<close> one way or the other as natural numbers, without wrap-around.
  When the two ranges neither overlap nor are adjacent, \<open>MergeWith s d\<close> returns
  \<open>ErrDisjointRanges\<close> and the store is the one before the call. When they overlap or
  are adjacent it returns \<^verbatim>\<open>nil\<close>, and the destination afterwards has the smaller of
  the two lower bounds, the larger of the two upper bounds, and its own protocol. For
  all pairs, whatever their lower bounds, the source is the same before and after the
  call, also when source and destination are one struct, and so is every struct other
  than the destination.
\<close>

theorem MergeWith_spec:
  "(minPort (h s) \<noteq> 0 \<and> minPort (h d) \<noteq> 0 \<longrightarrow>
      (\<not> Overlaps (h s) (h d)
       \<and> \<not> (proto (h s) = proto (h d) \<and> \<not> Overlaps (h s) (h d)
              \<and> (unat (maxPort (h s)) + 1 = unat (minPort (h d))
                  \<or> unat (maxPort (h d)) + 1 = unat (minPort (h s)))) \<longrightarrow>
         MergeWith s d h = (Some ErrDisjointRanges, h))
      \<and> (Overlaps (h s) (h d)
          \<or> (proto (h s) = proto (h d) \<and> \<not> Overlaps (h s) (h d)
              \<and> (unat (maxPort (h s)) + 1 = unat (minPort (h d))
                  \<or> unat (maxPort (h d)) + 1 = unat (minPort (h s)))) \<longrightarrow>
            fst (MergeWith s d h) = None
            \<and> minPort (snd (MergeWith s d h) d) = min (minPort (h s)) (minPort (h d))
            \<and> maxPort (snd (MergeWith s d h) d) = max (maxPort (h s)) (maxPort (h d))
            \<and> proto (snd (MergeWith s d h) d) = proto (h d)))
   \<and> snd (MergeWith s d h) s = h s
   \<and> (\<forall>r. r \<noteq> d \<longrightarrow> snd (MergeWith s d h) r = h r)"
proof (intro conjI impI)
  assume nz: "minPort (h s) \<noteq> 0 \<and> minPort (h d) \<noteq> 0"
  then have adj: "Adjacent (h s) (h d) \<longleftrightarrow>
      proto (h s) = proto (h d) \<and> \<not> Overlaps (h s) (h d)
      \<and> (unat (maxPort (h s)) + 1 = unat (minPort (h d))
          \<or> unat (maxPort (h d)) + 1 = unat (minPort (h s)))"
    by (simp add: Adjacent_iff_one_apart)
  {
    assume "\<not> Overlaps (h s) (h d)
       \<and> \<not> (proto (h s) = proto (h d) \<and> \<not> Overlaps (h s) (h d)
              \<and> (unat (maxPort (h s)) + 1 = unat (minPort (h d))
                  \<or> unat (maxPort (h d)) + 1 = unat (minPort (h s))))"
    with adj have "\<not> Overlaps (h s) (h d) \<and> \<not> Adjacent (h s) (h d)" by blast
    with MergeWith_result [of h s d]
    show "MergeWith s d h = (Some ErrDisjointRanges, h)" by blast
  }
  assume "Overlaps (h s) (h d)
          \<or> (proto (h s) = proto (h d) \<and> \<not> Overlaps (h s) (h d)
              \<and> (unat (maxPort (h s)) + 1 = unat (minPort (h d))
                  \<or> unat (maxPort (h d)) + 1 = unat (minPort (h s))))"
  with adj have ok: "Overlaps (h s) (h d) \<or> Adjacent (h s) (h d)" by blast
  with MergeWith_result [of h s d]
  show "fst (MergeWith s d h) = None" by blast
  from ok MergeWith_result [of h s d]
  show "minPort (snd (MergeWith s d h) d) = min (minPort (h s)) (minPort (h d))" by blast
  from ok MergeWith_result [of h s d]
  show "maxPort (snd (MergeWith s d h) d) = max (maxPort (h s)) (maxPort (h d))" by blast
  from ok MergeWith_result [of h s d]
  show "proto (snd (MergeWith s d h) d) = proto (h d)" by blast
next
  from MergeWith_result [of h s d] show "snd (MergeWith s d h) s = h s" by blast
next
  from MergeWith_result [of h s d]
  show "\<forall>r. r \<noteq> d \<longrightarrow> snd (MergeWith s d h) r = h r" by blast
qed

text \<open>
  The cases "UDP Adjacent" and "Disparate Ranges" of \<^verbatim>\<open>TestMergeWith\<close>.
\<close>

theorem MergeWith_spec_witness:
  "minPort \<lparr>minPort = 17, maxPort = 18, proto = 17\<rparr> \<noteq> 0
   \<and> minPort \<lparr>minPort = 19, maxPort = 21, proto = 17\<rparr> \<noteq> 0
   \<and> minPort \<lparr>minPort = 20, maxPort = 21, proto = 17\<rparr> \<noteq> 0
   \<and> \<not> Overlaps \<lparr>minPort = 17, maxPort = 18, proto = 17\<rparr> \<lparr>minPort = 19, maxPort = 21, proto = 17\<rparr>
   \<and> unat (18 :: uint16) + 1 = unat (19 :: uint16)
   \<and> fst (MergeWith 0 1 (two_ranges \<lparr>minPort = 17, maxPort = 18, proto = 17\<rparr>
                                      \<lparr>minPort = 19, maxPort = 21, proto = 17\<rparr>)) = None
   \<and> minPort (snd (MergeWith 0 1 (two_ranges \<lparr>minPort = 17, maxPort = 18, proto = 17\<rparr>
                                      \<lparr>minPort = 19, maxPort = 21, proto = 17\<rparr>)) 1) = 17
   \<and> maxPort (snd (MergeWith 0 1 (two_ranges \<lparr>minPort = 17, maxPort = 18, proto = 17\<rparr>
                                      \<lparr>minPort = 19, maxPort = 21, proto = 17\<rparr>)) 1) = 21
   \<and> proto (snd (MergeWith 0 1 (two_ranges \<lparr>minPort = 17, maxPort = 18, proto = 17\<rparr>
                                      \<lparr>minPort = 19, maxPort = 21, proto = 17\<rparr>)) 1) = 17
   \<and> snd (MergeWith 0 1 (two_ranges \<lparr>minPort = 17, maxPort = 18, proto = 17\<rparr>
                                      \<lparr>minPort = 19, maxPort = 21, proto = 17\<rparr>)) 0
       = \<lparr>minPort = 17, maxPort = 18, proto = 17\<rparr>
   \<and> \<not> Overlaps \<lparr>minPort = 17, maxPort = 18, proto = 17\<rparr> \<lparr>minPort = 20, maxPort = 21, proto = 17\<rparr>
   \<and> unat (18 :: uint16) + 1 \<noteq> unat (20 :: uint16)
   \<and> unat (21 :: uint16) + 1 \<noteq> unat (17 :: uint16)
   \<and> MergeWith 0 1 (two_ranges \<lparr>minPort = 17, maxPort = 18, proto = 17\<rparr>
                                 \<lparr>minPort = 20, maxPort = 21, proto = 17\<rparr>)
       = (Some ErrDisjointRanges, two_ranges \<lparr>minPort = 17, maxPort = 18, proto = 17\<rparr>
                                             \<lparr>minPort = 20, maxPort = 21, proto = 17\<rparr>)"
  using MergeWith_spec [of "two_ranges \<lparr>minPort = 17, maxPort = 18, proto = 17\<rparr>
                                       \<lparr>minPort = 19, maxPort = 21, proto = 17\<rparr>" 0 1]
    MergeWith_spec [of "two_ranges \<lparr>minPort = 17, maxPort = 18, proto = 17\<rparr>
                                   \<lparr>minPort = 20, maxPort = 21, proto = 17\<rparr>" 0 1]
  by (simp add: two_ranges_def Overlaps_def)

text \<open>
  C9. If source and destination both pass \<open>Validate\<close>, then after a successful
  \<open>Overlap\<close> and after a successful \<open>MergeWith\<close> the destination passes \<open>Validate\<close>
  again; and a successful \<open>Overlap\<close> means that the larger lower bound is at most the
  smaller upper bound.
\<close>

theorem mutators_preserve_Validate:
  assumes "Validate (h s) = None" and "Validate (h d) = None"
  shows "(fst (Overlap s d h) = None \<longrightarrow>
            Validate (snd (Overlap s d h) d) = None
            \<and> max (minPort (h s)) (minPort (h d)) \<le> min (maxPort (h s)) (maxPort (h d)))
         \<and> (fst (MergeWith s d h) = None \<longrightarrow> Validate (snd (MergeWith s d h) d) = None)"
  using assms
  by (auto simp: Overlap_def MergeWith_def Validate_def Overlaps_def Let_def max_def min_def
       split: if_splits)

theorem mutators_preserve_Validate_witness:
  "Validate \<lparr>minPort = 17, maxPort = 20, proto = 6\<rparr> = None
   \<and> Validate \<lparr>minPort = 18, maxPort = 21, proto = 6\<rparr> = None
   \<and> fst (Overlap 0 1 (two_ranges \<lparr>minPort = 17, maxPort = 20, proto = 6\<rparr>
                                    \<lparr>minPort = 18, maxPort = 21, proto = 6\<rparr>)) = None
   \<and> Validate (snd (Overlap 0 1 (two_ranges \<lparr>minPort = 17, maxPort = 20, proto = 6\<rparr>
                                    \<lparr>minPort = 18, maxPort = 21, proto = 6\<rparr>)) 1) = None
   \<and> fst (MergeWith 0 1 (two_ranges \<lparr>minPort = 17, maxPort = 20, proto = 6\<rparr>
                                      \<lparr>minPort = 18, maxPort = 21, proto = 6\<rparr>)) = None
   \<and> Validate (snd (MergeWith 0 1 (two_ranges \<lparr>minPort = 17, maxPort = 20, proto = 6\<rparr>
                                      \<lparr>minPort = 18, maxPort = 21, proto = 6\<rparr>)) 1) = None"
proof -
  let ?h = "two_ranges \<lparr>minPort = 17, maxPort = 20, proto = 6\<rparr>
                       \<lparr>minPort = 18, maxPort = 21, proto = 6\<rparr>"
  have vs: "Validate (?h 0) = None" and vd: "Validate (?h 1) = None"
    by (simp_all add: two_ranges_def Validate_def ProtoTcp_def)
  have ok: "fst (Overlap 0 1 ?h) = None" "fst (MergeWith 0 1 ?h) = None"
    by (simp_all add: two_ranges_def Overlap_def MergeWith_def Overlaps_def Let_def)
  from mutators_preserve_Validate [OF vs vd] ok vs vd show ?thesis
    by (simp add: two_ranges_def)
qed

section \<open>Ordering\<close>

text \<open>
  C4. \<open>EntirelyLessThan P Q\<close> is true whenever \<open>proto P < proto Q\<close>. Otherwise it is
  false when the two ranges overlap, and when they do not overlap it is true exactly
  when \<open>maxPort P < minPort Q\<close>.
\<close>

theorem EntirelyLessThan_spec:
  "(proto P < proto Q \<longrightarrow> EntirelyLessThan P Q)
   \<and> (\<not> proto P < proto Q \<and> Overlaps P Q \<longrightarrow> \<not> EntirelyLessThan P Q)
   \<and> (\<not> proto P < proto Q \<and> \<not> Overlaps P Q \<longrightarrow>
        (EntirelyLessThan P Q \<longleftrightarrow> maxPort P < minPort Q))"
  by (simp add: EntirelyLessThan_def)

text \<open>
  The cases "Proto Mismatch 2", "Range Overlap" and "Range EntirelyLessThan" of
  \<^verbatim>\<open>TestEntirelyLessThan\<close>.
\<close>

theorem EntirelyLessThan_spec_witness:
  "EntirelyLessThan \<lparr>minPort = 50, maxPort = 55, proto = 6\<rparr> \<lparr>minPort = 18, maxPort = 21, proto = 17\<rparr>
   \<and> Overlaps \<lparr>minPort = 17, maxPort = 20, proto = 6\<rparr> \<lparr>minPort = 18, maxPort = 21, proto = 6\<rparr>
   \<and> \<not> EntirelyLessThan \<lparr>minPort = 17, maxPort = 20, proto = 6\<rparr> \<lparr>minPort = 18, maxPort = 21, proto = 6\<rparr>
   \<and> \<not> Overlaps \<lparr>minPort = 17, maxPort = 21, proto = 6\<rparr> \<lparr>minPort = 24, maxPort = 26, proto = 6\<rparr>
   \<and> EntirelyLessThan \<lparr>minPort = 17, maxPort = 21, proto = 6\<rparr> \<lparr>minPort = 24, maxPort = 26, proto = 6\<rparr>"
  using EntirelyLessThan_spec [of "\<lparr>minPort = 50, maxPort = 55, proto = 6\<rparr>"
      "\<lparr>minPort = 18, maxPort = 21, proto = 17\<rparr>"]
    EntirelyLessThan_spec [of "\<lparr>minPort = 17, maxPort = 20, proto = 6\<rparr>"
      "\<lparr>minPort = 18, maxPort = 21, proto = 6\<rparr>"]
    EntirelyLessThan_spec [of "\<lparr>minPort = 17, maxPort = 21, proto = 6\<rparr>"
      "\<lparr>minPort = 24, maxPort = 26, proto = 6\<rparr>"]
  by (simp add: Overlaps_def)

text \<open>
  C10. There are two ranges that pass \<open>Validate\<close>, of different protocols, each of
  which is entirely less than the other: TCP ports 100 to 200 and UDP ports 1 to 5.
\<close>

theorem EntirelyLessThan_not_asymmetric:
  "\<exists>P Q. Validate P = None \<and> Validate Q = None \<and> proto P \<noteq> proto Q
         \<and> EntirelyLessThan P Q \<and> EntirelyLessThan Q P"
proof -
  let ?P = "\<lparr>minPort = 100, maxPort = 200, proto = ProtoTcp\<rparr>"
  let ?Q = "\<lparr>minPort = 1, maxPort = 5, proto = ProtoUdp\<rparr>"
  have "Validate ?P = None" "Validate ?Q = None" "proto ?P \<noteq> proto ?Q"
    "EntirelyLessThan ?P ?Q" "EntirelyLessThan ?Q ?P"
    by (simp_all add: Validate_def EntirelyLessThan_def Overlaps_def ProtoTcp_def ProtoUdp_def)
  then show ?thesis by blast
qed

end
